theory Spec2Isabelle
  imports Main "HOL-Library.Sublist"
begin

section \<open>Values returned by user code\<close>

text \<open>
  The validators of \<^verbatim>\<open>Sandbox.ts\<close> inspect whatever the user's code returned, so the
  model is untyped: a value is one of the data shapes of JavaScript. Numbers are the
  integer-valued ones (below \<open>10^21\<close> in magnitude, where \<^verbatim>\<open>String(n)\<close> is the plain
  decimal expansion). An object is the list of its own enumerable string-keyed properties
  in the order \<^verbatim>\<open>for ... in\<close> and \<^verbatim>\<open>Object.keys\<close> visit them. Strings are
  \<open>char list\<close>; the one non-ASCII character of the source is written in UTF-8.
\<close>

datatype jsval =
    JUndefined
  | JNull
  | JBool bool
  | JNum int
  | JStr string
  | JArr "jsval list"
  | JObj "(string \<times> jsval) list"

text \<open>The run-time type tag, \<^verbatim>\<open>typeof v\<close>.\<close>

fun typeof :: "jsval \<Rightarrow> string" where
  "typeof JUndefined = ''undefined''"
| "typeof JNull = ''object''"
| "typeof (JBool b) = ''boolean''"
| "typeof (JNum n) = ''number''"
| "typeof (JStr s) = ''string''"
| "typeof (JArr xs) = ''object''"
| "typeof (JObj kvs) = ''object''"

text \<open>\<^verbatim>\<open>Array.isArray(v)\<close>.\<close>

fun isArray :: "jsval \<Rightarrow> bool" where
  "isArray (JArr xs) = True"
| "isArray v = False"

text \<open>\<^verbatim>\<open>v === null || v === undefined\<close>: the values that have no properties at all.\<close>

fun nullish :: "jsval \<Rightarrow> bool" where
  "nullish JUndefined = True"
| "nullish JNull = True"
| "nullish v = False"

text \<open>Decimal rendering of an array or string index, and of a number.\<close>

definition digitChar :: "nat \<Rightarrow> char" where
  "digitChar d = ''0123456789'' ! d"

function showNat :: "nat \<Rightarrow> string" where
  "showNat n = (if n < 10 then [digitChar n] else showNat (n div 10) @ [digitChar (n mod 10)])"
  by pat_completeness auto
termination
  by (relation "measure id") auto

declare showNat.simps [simp del]

definition showInt :: "int \<Rightarrow> string" where
  "showInt n = (if n < 0 then ''-'' @ showNat (nat (- n)) else showNat (nat n))"

text \<open>
  The string a template literal \<^verbatim>\<open>`${v}`\<close> inserts. An array is its elements joined by
  commas, with nothing written for a null or undefined element.
\<close>

fun joinComma :: "string list \<Rightarrow> string" where
  "joinComma [] = []"
| "joinComma [s] = s"
| "joinComma (s # t # ss) = s @ '','' @ joinComma (t # ss)"

fun jsString :: "jsval \<Rightarrow> string" where
  "jsString JUndefined = ''undefined''"
| "jsString JNull = ''null''"
| "jsString (JBool b) = (if b then ''true'' else ''false'')"
| "jsString (JNum n) = showInt n"
| "jsString (JStr s) = s"
| "jsString (JArr xs) = joinComma (map (\<lambda>x. if nullish x then [] else jsString x) xs)"
| "jsString (JObj kvs) = ''[object Object]''"

text \<open>The indices \<^verbatim>\<open>"0"\<close>, \<^verbatim>\<open>"1"\<close>, ... that a string or an array of length \<open>n\<close> has as keys.\<close>

definition indexKeys :: "nat \<Rightarrow> string list" where
  "indexKeys n = map showNat [0..<n]"

text \<open>
  The own enumerable keys of a value, in iteration order: what the loop
  \<^verbatim>\<open>for (const key in item) { if (!hasOwnProperty.call(item, key)) continue; ... }\<close>
  visits. Over \<^verbatim>\<open>null\<close> and \<^verbatim>\<open>undefined\<close> the loop body never runs; booleans and
  numbers have no enumerable property.
\<close>

fun ownKeys :: "jsval \<Rightarrow> string list" where
  "ownKeys JUndefined = []"
| "ownKeys JNull = []"
| "ownKeys (JBool b) = []"
| "ownKeys (JNum n) = []"
| "ownKeys (JStr s) = indexKeys (length s)"
| "ownKeys (JArr xs) = indexKeys (length xs)"
| "ownKeys (JObj kvs) = map fst kvs"

section \<open>Errors\<close>

text \<open>
  Modelled from the spec: the class \<^verbatim>\<open>ValidationError\<close> is imported from
  \<^verbatim>\<open>./ValidationError\<close>, which is not among the sources. The spec gives a validation
  error as \<^verbatim>\<open>{ message: string, description: string, itemIndex?: number }\<close>, so an error
  is built from the three fields the source passes to the constructor, in the order
  \<open>message\<close>, \<open>description\<close>, \<open>itemIndex\<close> (\<open>None\<close> when the source passes no index).
  An instance of the subclass \<^verbatim>\<open>ReservedKeyFoundError\<close> keeps its class. \<open>TypeError\<close> is
  the error of the JavaScript run time when a property of \<^verbatim>\<open>null\<close> or \<^verbatim>\<open>undefined\<close> is
  read; \<open>HelperError\<close> is whatever the external helper \<^verbatim>\<open>normalizeItems\<close> throws.
\<close>

datatype error =
    ValidationError string string "nat option"
  | ReservedKeyFound string string "nat option"
  | TypeError
  | HelperError string

text \<open>The constructor of \<^verbatim>\<open>class ReservedKeyFoundError extends ValidationError\<close>.\<close>

definition ReservedKeyFoundError :: "string \<Rightarrow> nat \<Rightarrow> error" where
  "ReservedKeyFoundError reservedKey itemIndex =
     ReservedKeyFound
       ''Invalid output format''
       (''An output item contains the reserved key <code>'' @ reservedKey @
        ''</code>. To get around this, please wrap each item in an object, under a key called <code>json</code>. <a href=\"https://docs.n8n.io/data/data-structure/#data-structure\" target=\"_blank\">Example</a>'')
       (Some itemIndex)"

section \<open>The sandbox\<close>

record nounForms =
  singular :: string
  plural :: string

record SandboxTextKeys =
  object :: nounForms

text \<open>
  The helpers the constructor of \<^verbatim>\<open>Sandbox\<close> receives. \<^verbatim>\<open>normalizeItems\<close> is an external
  collaborator: it is a field of the sandbox, and every theorem below holds for each choice
  of it. \<open>Inl m\<close> stands for an exception it throws.
\<close>

record Helpers =
  normalizeItems :: "jsval \<Rightarrow> string + jsval list"

record Sandbox =
  textKeys :: SandboxTextKeys
  helpers :: Helpers

datatype textKey = ObjectKey

record textOptions =
  includeArticle :: bool
  pluralForm :: bool

definition REQUIRED_N8N_ITEM_KEYS :: "string set" where
  "REQUIRED_N8N_ITEM_KEYS = {''json'', ''binary'', ''pairedItem'', ''error'', ''index''}"

subsection \<open>Text Provider\<close>

text \<open>
  \<^verbatim>\<open>getTextKey(key, options?)\<close>. An option that is left out is falsy, so it is \<open>False\<close>
  here; \<open>pluralForm\<close> is the option \<^verbatim>\<open>plural\<close>.
\<close>

definition noOptions :: textOptions where
  "noOptions = \<lparr>includeArticle = False, pluralForm = False\<rparr>"

fun textKeyForms :: "SandboxTextKeys \<Rightarrow> textKey \<Rightarrow> nounForms" where
  "textKeyForms tk ObjectKey = object tk"

definition getTextKey :: "Sandbox \<Rightarrow> textKey \<Rightarrow> textOptions \<Rightarrow> string" where
  "getTextKey this key options =
     (let response = (if pluralForm options then plural (textKeyForms (textKeys this) key)
                      else singular (textKeyForms (textKeys this) key))
      in if \<not> includeArticle options then response
         else if list_ex (\<lambda>value. prefix value response) [''a'', ''e'', ''i'', ''o'', ''u'']
              then ''an '' @ response
              else ''a '' @ response)"

subsection \<open>Item Validator\<close>

text \<open>The values that are not objects: \<^verbatim>\<open>undefined\<close>, booleans, numbers and strings.\<close>

fun isPrimitive :: "jsval \<Rightarrow> bool" where
  "isPrimitive JUndefined = True"
| "isPrimitive (JBool b) = True"
| "isPrimitive (JNum n) = True"
| "isPrimitive (JStr s) = True"
| "isPrimitive v = False"

text \<open>
  Modelled from the spec: \<^verbatim>\<open>isObject\<close> is imported from \<^verbatim>\<open>./utils\<close>, which is not among
  the sources. The spec describes it as "is a structured key-value object (not null, not
  array, not a primitive)".
\<close>

definition isObject :: "jsval \<Rightarrow> bool" where
  "isObject maybe = (maybe \<noteq> JNull \<and> \<not> isArray maybe \<and> \<not> isPrimitive maybe)"

text \<open>
  Reading the property \<open>key\<close> of a value that is neither \<^verbatim>\<open>null\<close> nor \<^verbatim>\<open>undefined\<close>,
  for a key that is not an index or a built-in property (the source reads \<^verbatim>\<open>json\<close> and
  \<^verbatim>\<open>binary\<close> only): an object yields what it stores under the key, every other value
  yields \<^verbatim>\<open>undefined\<close>.
\<close>

fun getProp :: "jsval \<Rightarrow> string \<Rightarrow> jsval" where
  "getProp (JObj kvs) key = (case map_of kvs key of None \<Rightarrow> JUndefined | Some v \<Rightarrow> v)"
| "getProp v key = JUndefined"

text \<open>
  \<^verbatim>\<open>validateItem({ json, binary }, itemIndex)\<close>. Destructuring the parameter throws a
  \<open>TypeError\<close> when the item is \<^verbatim>\<open>null\<close> or \<^verbatim>\<open>undefined\<close>. The description of the second
  error closes the quotation after \<^verbatim>\<open>binary\<close> with U+2019, as the source does.
\<close>

definition validateItem :: "Sandbox \<Rightarrow> jsval \<Rightarrow> nat \<Rightarrow> error + unit" where
  "validateItem this item itemIndex =
     (if nullish item then Inl TypeError
      else
        let json = getProp item ''json''; binary = getProp item ''binary'' in
        if json = JUndefined \<or> \<not> isObject json then
          Inl (ValidationError
            (''A 'json' property isn't '' @
               getTextKey this ObjectKey \<lparr>includeArticle = True, pluralForm = False\<rparr>)
            (''In the returned data, every key named 'json' must point to '' @
               getTextKey this ObjectKey \<lparr>includeArticle = True, pluralForm = False\<rparr> @ ''.'')
            (Some itemIndex))
        else if binary \<noteq> JUndefined \<and> \<not> isObject binary then
          Inl (ValidationError
            (''A 'binary' property isn't '' @
               getTextKey this ObjectKey \<lparr>includeArticle = True, pluralForm = False\<rparr>)
            (''In the returned data, every key named 'binary'' @ [CHR 0xE2, CHR 0x80, CHR 0x99] @
               '' must point to '' @
               getTextKey this ObjectKey \<lparr>includeArticle = True, pluralForm = False\<rparr> @ ''.'')
            (Some itemIndex))
        else Inr ())"

subsection \<open>Top-Level Key Guard\<close>

text \<open>
  The loop of \<^verbatim>\<open>validateTopLevelKeys\<close> over the own keys, threading its two variables
  \<^verbatim>\<open>foundReservedKey\<close> (\<open>None\<close> is \<^verbatim>\<open>null\<close>) and \<^verbatim>\<open>unknownKeys\<close>.
\<close>

fun topLevelKeysLoop :: "string list \<Rightarrow> string option \<times> string list \<Rightarrow> string option \<times> string list" where
  "topLevelKeysLoop [] st = st"
| "topLevelKeysLoop (key # keys) (foundReservedKey, unknownKeys) =
     (if key \<in> REQUIRED_N8N_ITEM_KEYS
      then topLevelKeysLoop keys
             ((case foundReservedKey of None \<Rightarrow> Some key | Some k \<Rightarrow> Some k), unknownKeys)
      else topLevelKeysLoop keys (foundReservedKey, unknownKeys @ [key]))"

text \<open>
  \<^verbatim>\<open>validateTopLevelKeys(item, itemIndex)\<close>. The test \<^verbatim>\<open>if (foundReservedKey)\<close> is one of
  truthiness: \<^verbatim>\<open>null\<close> and the empty string fail it.
\<close>

definition validateTopLevelKeys :: "jsval \<Rightarrow> nat \<Rightarrow> error + unit" where
  "validateTopLevelKeys item itemIndex =
     (case topLevelKeysLoop (ownKeys item) (None, []) of
        (foundReservedKey, unknownKeys) \<Rightarrow>
          if length unknownKeys > 0 then
            (case foundReservedKey of
               Some reservedKey \<Rightarrow>
                 if reservedKey \<noteq> [] then Inl (ReservedKeyFoundError reservedKey itemIndex)
                 else Inl (ValidationError
                        (''Unknown top-level item key: '' @ unknownKeys ! 0)
                        ''Access the properties of an item under `.json`, e.g. `item.json`''
                        (Some itemIndex))
             | None \<Rightarrow>
                 Inl (ValidationError
                        (''Unknown top-level item key: '' @ unknownKeys ! 0)
                        ''Access the properties of an item under `.json`, e.g. `item.json`''
                        (Some itemIndex)))
          else Inr ())"

text \<open>An item has at least one own top-level key in the reserved key set.\<close>

definition hasReservedKey :: "jsval \<Rightarrow> bool" where
  "hasReservedKey item = list_ex (\<lambda>key. key \<in> REQUIRED_N8N_ITEM_KEYS) (ownKeys item)"

subsection \<open>Single-item validation\<close>

text \<open>
  \<^verbatim>\<open>validateRunCodeEachItem(executionResult, itemIndex)\<close>. The helper is called with the
  one-element array \<^verbatim>\<open>[executionResult]\<close>; \<^verbatim>\<open>const [returnData] = ...\<close> takes the first
  element of what it returns, \<^verbatim>\<open>undefined\<close> when there is none.
\<close>

definition validateRunCodeEachItem :: "Sandbox \<Rightarrow> jsval \<Rightarrow> nat \<Rightarrow> error + jsval" where
  "validateRunCodeEachItem this executionResult itemIndex =
     (if typeof executionResult \<noteq> ''object'' then
        Inl (ValidationError
          (''Code doesn't return '' @
             getTextKey this ObjectKey \<lparr>includeArticle = True, pluralForm = False\<rparr>)
          (''Please return '' @
             getTextKey this ObjectKey \<lparr>includeArticle = True, pluralForm = False\<rparr> @
             '' representing the output item. ('' @ [CHR 0x27] @ jsString executionResult @
             [CHR 0x27] @ '' was returned instead.)'')
          (Some itemIndex))
      else case executionResult of
        JArr elements \<Rightarrow>
          (let firstSentence =
                 (case elements of
                    first # rest \<Rightarrow> ''An array of '' @ typeof first @ ''s was returned.''
                  | [] \<Rightarrow> ''An empty array was returned.'')
           in Inl (ValidationError
                (''Code doesn't return a single '' @ getTextKey this ObjectKey noOptions)
                (firstSentence @
                   '' If you need to output multiple items, please use the 'Run Once for All Items' mode instead.'')
                (Some itemIndex)))
      | _ \<Rightarrow>
          (case normalizeItems (helpers this) (JArr [executionResult]) of
             Inl thrown \<Rightarrow> Inl (HelperError thrown)
           | Inr normalized \<Rightarrow>
               (let returnData = (case normalized of [] \<Rightarrow> JUndefined | first # rest \<Rightarrow> first) in
                case validateItem this returnData itemIndex of
                  Inl e \<Rightarrow> Inl e
                | Inr u \<Rightarrow>
                    (case validateTopLevelKeys returnData itemIndex of
                       Inl e \<Rightarrow> Inl e
                     | Inr u \<Rightarrow> Inr returnData))))"

subsection \<open>All-items validation\<close>

text \<open>
  \<^verbatim>\<open>Object.keys(item)\<close>, which throws a \<open>TypeError\<close> on \<^verbatim>\<open>null\<close> and \<^verbatim>\<open>undefined\<close>.
\<close>

definition objectKeys :: "jsval \<Rightarrow> error + string list" where
  "objectKeys item = (if nullish item then Inl TypeError else Inr (ownKeys item))"

text \<open>
  \<^verbatim>\<open>executionResult.some((item) => Object.keys(item).find((key) => REQUIRED_N8N_ITEM_KEYS.has(key)))\<close>:
  the elements are visited in index order until the callback returns a truthy value, that
  is, a key that \<^verbatim>\<open>find\<close> has found and that is not the empty string.
\<close>

fun someHasN8nKey :: "jsval list \<Rightarrow> error + bool" where
  "someHasN8nKey [] = Inr False"
| "someHasN8nKey (item # items) =
     (case objectKeys item of
        Inl e \<Rightarrow> Inl e
      | Inr keys \<Rightarrow>
          (case find (\<lambda>key. key \<in> REQUIRED_N8N_ITEM_KEYS) keys of
             Some key \<Rightarrow> if key \<noteq> [] then Inr True else someHasN8nKey items
           | None \<Rightarrow> someHasN8nKey items))"

text \<open>
  The loop \<^verbatim>\<open>for (let index = 0; index < executionResult.length; index++)\<close> that runs the
  guard on each element, here from \<open>index\<close> on over the elements that are left.
\<close>

fun validateTopLevelKeysFrom :: "jsval list \<Rightarrow> nat \<Rightarrow> error + unit" where
  "validateTopLevelKeysFrom [] index = Inr ()"
| "validateTopLevelKeysFrom (item # items) index =
     (case validateTopLevelKeys item index of
        Inl e \<Rightarrow> Inl e
      | Inr u \<Rightarrow> validateTopLevelKeysFrom items (Suc index))"

text \<open>\<^verbatim>\<open>returnData.forEach((item, index) => this.validateItem(item, index))\<close>, from \<open>index\<close> on.\<close>

fun validateItemsFrom :: "Sandbox \<Rightarrow> jsval list \<Rightarrow> nat \<Rightarrow> error + unit" where
  "validateItemsFrom this [] index = Inr ()"
| "validateItemsFrom this (item # items) index =
     (case validateItem this item index of
        Inl e \<Rightarrow> Inl e
      | Inr u \<Rightarrow> validateItemsFrom this items (Suc index))"

text \<open>
  The last three lines of \<^verbatim>\<open>validateRunCodeAllItems\<close>: normalize, validate every item,
  return the normalized items.
\<close>

definition normalizeAndValidate :: "Sandbox \<Rightarrow> jsval \<Rightarrow> error + jsval list" where
  "normalizeAndValidate this executionResult =
     (case normalizeItems (helpers this) executionResult of
        Inl thrown \<Rightarrow> Inl (HelperError thrown)
      | Inr returnData \<Rightarrow>
          (case validateItemsFrom this returnData 0 of
             Inl e \<Rightarrow> Inl e
           | Inr u \<Rightarrow> Inr returnData))"

text \<open>\<^verbatim>\<open>validateRunCodeAllItems(executionResult)\<close>.\<close>

definition validateRunCodeAllItems :: "Sandbox \<Rightarrow> jsval \<Rightarrow> error + jsval list" where
  "validateRunCodeAllItems this executionResult =
     (if typeof executionResult \<noteq> ''object'' then
        Inl (ValidationError
          ''Code doesn't return items properly''
          (''Please return an array of '' @
             getTextKey this ObjectKey \<lparr>includeArticle = False, pluralForm = True\<rparr> @
             '', one for each item you would like to output.'')
          None)
      else case executionResult of
        JArr elements \<Rightarrow>
          (case someHasN8nKey elements of
             Inl e \<Rightarrow> Inl e
           | Inr mustHaveTopLevelN8nKey \<Rightarrow>
               if mustHaveTopLevelN8nKey then
                 (case validateTopLevelKeysFrom elements 0 of
                    Inl e \<Rightarrow> Inl e
                  | Inr u \<Rightarrow> normalizeAndValidate this executionResult)
               else normalizeAndValidate this executionResult)
      | _ \<Rightarrow> normalizeAndValidate this executionResult)"

subsection \<open>An example sandbox\<close>

text \<open>
  Modelled from the spec: \<^verbatim>\<open>normalizeItems\<close> belongs to the helpers of the host and is not
  among the sources. The spec says that it "wraps bare payloads under \<^verbatim>\<open>json\<close> when no
  reserved key is present"; in the spec's examples an item that has the key \<^verbatim>\<open>json\<close> comes
  back "unchanged (after normalization pass-through)", also next to an unknown key.
\<close>

definition wrapItem :: "jsval \<Rightarrow> jsval" where
  "wrapItem item = (if hasReservedKey item then item else JObj [(''json'', item)])"

text \<open>
  Modelled from the spec: \<^verbatim>\<open>normalizeItems\<close>, which "coerces arbitrary return shapes into
  canonical items" and "returns a sequence of items": the elements of an array are wrapped
  one by one, a single value becomes a one-element sequence, and an absent result is
  "treated as zero items after normalization". It is used for concrete examples only;
  the theorems hold for every helper.
\<close>

fun specNormalizeItems :: "jsval \<Rightarrow> string + jsval list" where
  "specNormalizeItems JUndefined = Inr []"
| "specNormalizeItems (JArr elements) = Inr (map wrapItem elements)"
| "specNormalizeItems v = Inr [wrapItem v]"

definition exampleSandbox :: Sandbox where
  "exampleSandbox =
     \<lparr>textKeys = \<lparr>object = \<lparr>singular = ''object'', plural = ''objects''\<rparr>\<rparr>,
      helpers = \<lparr>normalizeItems = specNormalizeItems\<rparr>\<rparr>"

section \<open>Properties\<close>

subsection \<open>Text Provider\<close>

lemma startsWith_vowel:
  "list_ex (\<lambda>value. prefix value response) [''a'', ''e'', ''i'', ''o'', ''u''] \<longleftrightarrow>
     response \<noteq> [] \<and> hd response \<in> {CHR ''a'', CHR ''e'', CHR ''i'', CHR ''o'', CHR ''u''}"
  by (cases response) auto

text \<open>
  C9. With the article option, \<open>getTextKey\<close> puts \<open>an\<close> before the selected noun phrase
  when its first character is one of the lowercase letters a, e, i, o, u, and \<open>a\<close>
  otherwise (also before an empty phrase); without the option it returns the selected
  singular or plural phrase unchanged.
\<close>

theorem getTextKey_article:
  "getTextKey this key \<lparr>includeArticle = True, pluralForm = p\<rparr> =
     (let phrase = (if p then plural (textKeyForms (textKeys this) key)
                    else singular (textKeyForms (textKeys this) key))
      in if phrase \<noteq> [] \<and> hd phrase \<in> {CHR ''a'', CHR ''e'', CHR ''i'', CHR ''o'', CHR ''u''}
         then ''an '' @ phrase else ''a '' @ phrase)
   \<and> getTextKey this key \<lparr>includeArticle = False, pluralForm = p\<rparr> =
     (if p then plural (textKeyForms (textKeys this) key)
      else singular (textKeyForms (textKeys this) key))"
  unfolding getTextKey_def Let_def startsWith_vowel by simp

lemma getTextKey_examples:
  "getTextKey exampleSandbox ObjectKey \<lparr>includeArticle = True, pluralForm = False\<rparr> = ''an object''"
  "getTextKey exampleSandbox ObjectKey \<lparr>includeArticle = False, pluralForm = True\<rparr> = ''objects''"
  "getTextKey \<lparr>textKeys = \<lparr>object = \<lparr>singular = ''dictionary'', plural = ''dictionaries''\<rparr>\<rparr>,
               helpers = \<lparr>normalizeItems = specNormalizeItems\<rparr>\<rparr>
     ObjectKey \<lparr>includeArticle = True, pluralForm = False\<rparr> = ''a dictionary''"
  "getTextKey \<lparr>textKeys = \<lparr>object = \<lparr>singular = ''Object'', plural = ''Objects''\<rparr>\<rparr>,
               helpers = \<lparr>normalizeItems = specNormalizeItems\<rparr>\<rparr>
     ObjectKey \<lparr>includeArticle = True, pluralForm = False\<rparr> = ''a Object''"
  by (simp_all add: getTextKey_def exampleSandbox_def)

subsection \<open>Single-item validation: the classifier\<close>

lemma typeof_not_object_iff: "typeof v \<noteq> ''object'' \<longleftrightarrow> isPrimitive v"
  by (cases v) simp_all

text \<open>
  C4, as the claim states it, fails at \<^verbatim>\<open>null\<close>: its type tag is \<^verbatim>\<open>object\<close>, so it passes
  the gate and the Non-object-result error is not raised.
\<close>

theorem validateRunCodeEachItem_null_counterexample:
  "typeof JNull = ''object'' \<and>
   validateRunCodeEachItem exampleSandbox JNull 0 \<noteq>
     Inl (ValidationError
       ''Code doesn't return an object''
       (''Please return an object representing the output item. ('' @ [CHR 0x27] @ ''null'' @
          [CHR 0x27] @ '' was returned instead.)'')
       (Some 0))"
  by (simp add: validateRunCodeEachItem_def exampleSandbox_def wrapItem_def hasReservedKey_def
      validateItem_def isObject_def)

text \<open>
  C4, amended. For every value \<open>v\<close> whose type tag is not \<^verbatim>\<open>object\<close> (undefined, booleans,
  numbers and strings, by \<open>typeof_not_object_iff\<close>; not \<^verbatim>\<open>null\<close>) and every index \<open>i\<close>,
  \<open>validateRunCodeEachItem v i\<close> raises the \<open>ValidationError\<close> with message "Code doesn't
  return a/an <noun>", the description quoting \<open>v\<close>, and item index \<open>i\<close>.
\<close>

theorem validateRunCodeEachItem_not_object:
  assumes "typeof v \<noteq> ''object''"
  shows "validateRunCodeEachItem this v i =
     Inl (ValidationError
       (''Code doesn't return '' @
          getTextKey this ObjectKey \<lparr>includeArticle = True, pluralForm = False\<rparr>)
       (''Please return '' @
          getTextKey this ObjectKey \<lparr>includeArticle = True, pluralForm = False\<rparr> @
          '' representing the output item. ('' @ [CHR 0x27] @ jsString v @
          [CHR 0x27] @ '' was returned instead.)'')
       (Some i))"
  using assms by (simp add: validateRunCodeEachItem_def)

theorem validateRunCodeEachItem_not_object_witness:
  "typeof (JNum 5) \<noteq> ''object'' \<and>
   validateRunCodeEachItem exampleSandbox (JNum 5) 7 =
     Inl (ValidationError
       ''Code doesn't return an object''
       (''Please return an object representing the output item. ('' @ [CHR 0x27] @ ''5'' @
          [CHR 0x27] @ '' was returned instead.)'')
       (Some 7))"
  using validateRunCodeEachItem_not_object [of "JNum 5" exampleSandbox 7]
  by (simp add: getTextKey_def exampleSandbox_def showInt_def showNat.simps digitChar_def)

text \<open>
  C7. For every array \<open>a\<close> and index \<open>i\<close>, \<open>validateRunCodeEachItem a i\<close> raises the
  Unexpected-array \<open>ValidationError\<close> with item index \<open>i\<close>; its description starts with
  "An empty array was returned." when \<open>a\<close> is empty and with "An array of <type>s was
  returned.", for the type tag of the first element, otherwise.
\<close>

theorem validateRunCodeEachItem_array:
  "validateRunCodeEachItem this (JArr a) i =
     Inl (ValidationError
       (''Code doesn't return a single '' @ getTextKey this ObjectKey noOptions)
       ((if a = [] then ''An empty array was returned.''
         else ''An array of '' @ typeof (hd a) @ ''s was returned.'') @
        '' If you need to output multiple items, please use the 'Run Once for All Items' mode instead.'')
       (Some i))"
  by (cases a) (simp_all add: validateRunCodeEachItem_def)

lemma validateRunCodeEachItem_array_examples:
  "validateRunCodeEachItem exampleSandbox (JArr []) 4 =
     Inl (ValidationError ''Code doesn't return a single object''
       ''An empty array was returned. If you need to output multiple items, please use the 'Run Once for All Items' mode instead.''
       (Some 4))"
  "validateRunCodeEachItem exampleSandbox (JArr [JObj [], JNum 1]) 4 =
     Inl (ValidationError ''Code doesn't return a single object''
       ''An array of objects was returned. If you need to output multiple items, please use the 'Run Once for All Items' mode instead.''
       (Some 4))"
  by (simp_all add: validateRunCodeEachItem_def getTextKey_def exampleSandbox_def noOptions_def)

subsection \<open>All-items validation: an absent result\<close>

text \<open>
  C3, as the claim states it, fails: \<^verbatim>\<open>undefined\<close> is not returned as zero items.
\<close>

theorem validateRunCodeAllItems_undefined_counterexample:
  "validateRunCodeAllItems exampleSandbox JUndefined \<noteq> Inr []"
  by (simp add: validateRunCodeAllItems_def)

text \<open>
  C3, amended. In all-items mode an absent result is rejected by the first check: for
  every sandbox, \<open>validateRunCodeAllItems undefined\<close> raises the \<open>ValidationError\<close> with
  message "Code doesn't return items properly" and no item index, before the normalizer is
  called.
\<close>

theorem validateRunCodeAllItems_undefined:
  "validateRunCodeAllItems this JUndefined =
     Inl (ValidationError
       ''Code doesn't return items properly''
       (''Please return an array of '' @
          getTextKey this ObjectKey \<lparr>includeArticle = False, pluralForm = True\<rparr> @
          '', one for each item you would like to output.'')
       None)"
  by (simp add: validateRunCodeAllItems_def)

subsection \<open>Top-Level Key Guard\<close>

lemma find_filter_hd:
  "find P xs = (if filter P xs = [] then None else Some (hd (filter P xs)))"
  by (induction xs) simp_all

lemma find_Some_holds: "find P xs = Some x \<Longrightarrow> P x \<and> x \<in> set xs"
  by (induction xs) (auto split: if_splits)

lemma topLevelKeysLoop_filter:
  "topLevelKeysLoop keys (found, unknown) =
     ((case found of None \<Rightarrow> find (\<lambda>key. key \<in> REQUIRED_N8N_ITEM_KEYS) keys | Some k \<Rightarrow> Some k),
      unknown @ filter (\<lambda>key. key \<notin> REQUIRED_N8N_ITEM_KEYS) keys)"
  by (induction keys arbitrary: found unknown) (simp_all split: option.splits)

lemma reserved_key_not_empty: "key \<in> REQUIRED_N8N_ITEM_KEYS \<Longrightarrow> key \<noteq> []"
  by (auto simp: REQUIRED_N8N_ITEM_KEYS_def)

lemma hd_filter_reserved_not_empty:
  assumes "filter (\<lambda>key. key \<in> REQUIRED_N8N_ITEM_KEYS) keys \<noteq> []"
  shows "hd (filter (\<lambda>key. key \<in> REQUIRED_N8N_ITEM_KEYS) keys) \<noteq> []"
proof -
  have "hd (filter (\<lambda>key. key \<in> REQUIRED_N8N_ITEM_KEYS) keys)
          \<in> set (filter (\<lambda>key. key \<in> REQUIRED_N8N_ITEM_KEYS) keys)"
    using assms by (rule hd_in_set)
  then show ?thesis by (simp add: reserved_key_not_empty)
qed

text \<open>
  C5. Split the own top-level keys of an item, in iteration order, into the reserved and
  the unknown ones. With no unknown key the guard passes, whichever reserved keys there
  are; with an unknown key and a reserved key it raises \<open>ReservedKeyFoundError\<close> for the
  first reserved key and the item index; with an unknown key and no reserved key it raises
  the \<open>ValidationError\<close> whose message names the first unknown key.
\<close>

theorem validateTopLevelKeys_partition:
  "validateTopLevelKeys item i =
     (let reserved = filter (\<lambda>key. key \<in> REQUIRED_N8N_ITEM_KEYS) (ownKeys item);
          unknown = filter (\<lambda>key. key \<notin> REQUIRED_N8N_ITEM_KEYS) (ownKeys item)
      in if unknown = [] then Inr ()
         else if reserved \<noteq> [] then Inl (ReservedKeyFoundError (hd reserved) i)
         else Inl (ValidationError
                (''Unknown top-level item key: '' @ hd unknown)
                ''Access the properties of an item under `.json`, e.g. `item.json`''
                (Some i)))"
  using hd_filter_reserved_not_empty [of "ownKeys item"]
  by (simp add: validateTopLevelKeys_def topLevelKeysLoop_filter find_filter_hd Let_def hd_conv_nth)

lemma validateTopLevelKeys_examples:
  "validateTopLevelKeys (JObj [(''pairedItem'', JNum 0), (''json'', JObj [])]) 2 = Inr ()"
  "validateTopLevelKeys (JObj [(''foo'', JNum 2), (''binary'', JObj []), (''json'', JObj [])]) 2 =
     Inl (ReservedKeyFoundError ''binary'' 2)"
  "validateTopLevelKeys (JObj [(''b'', JNum 1), (''a'', JNum 2)]) 2 =
     Inl (ValidationError ''Unknown top-level item key: b''
            ''Access the properties of an item under `.json`, e.g. `item.json`'' (Some 2))"
  by (simp_all add: validateTopLevelKeys_def REQUIRED_N8N_ITEM_KEYS_def)

subsection \<open>Item Validator\<close>

text \<open>
  C6. For every item that has properties (a normalized item is an object) and every index
  \<open>i\<close>: the validator raises the \<open>ValidationError\<close> with message "A 'json' property isn't
  a/an <noun>" and item index \<open>i\<close> exactly when \<open>json\<close> is undefined or not a structured
  object; when \<open>json\<close> is valid, it raises the error with message "A 'binary' property
  isn't a/an <noun>" and item index \<open>i\<close> exactly when \<open>binary\<close> is defined and not a
  structured object; it passes exactly when neither holds; and two items with the same
  \<open>json\<close> and \<open>binary\<close> fields have the same outcome.
\<close>

theorem validateItem_json_binary:
  assumes "\<not> nullish item"
  shows "(validateItem this item i =
            Inl (ValidationError
              (''A 'json' property isn't '' @
                 getTextKey this ObjectKey \<lparr>includeArticle = True, pluralForm = False\<rparr>)
              (''In the returned data, every key named 'json' must point to '' @
                 getTextKey this ObjectKey \<lparr>includeArticle = True, pluralForm = False\<rparr> @ ''.'')
              (Some i))
          \<longleftrightarrow> getProp item ''json'' = JUndefined \<or> \<not> isObject (getProp item ''json''))
       \<and> (getProp item ''json'' \<noteq> JUndefined \<and> isObject (getProp item ''json'') \<longrightarrow>
            (validateItem this item i =
               Inl (ValidationError
                 (''A 'binary' property isn't '' @
                    getTextKey this ObjectKey \<lparr>includeArticle = True, pluralForm = False\<rparr>)
                 (''In the returned data, every key named 'binary'' @
                    [CHR 0xE2, CHR 0x80, CHR 0x99] @ '' must point to '' @
                    getTextKey this ObjectKey \<lparr>includeArticle = True, pluralForm = False\<rparr> @ ''.'')
                 (Some i))
             \<longleftrightarrow> getProp item ''binary'' \<noteq> JUndefined \<and> \<not> isObject (getProp item ''binary'')))
       \<and> (validateItem this item i = Inr () \<longleftrightarrow>
            isObject (getProp item ''json'') \<and>
            (getProp item ''binary'' = JUndefined \<or> isObject (getProp item ''binary'')))
       \<and> (\<forall>item'. \<not> nullish item' \<and> getProp item' ''json'' = getProp item ''json'' \<and>
              getProp item' ''binary'' = getProp item ''binary'' \<longrightarrow>
              validateItem this item' i = validateItem this item i)"
  using assms by (auto simp: validateItem_def Let_def isObject_def)

theorem validateItem_json_binary_witness:
  "\<not> nullish (JObj [(''json'', JObj [(''x'', JNum 1)]), (''binary'', JArr [JNum 1, JNum 2])]) \<and>
   validateItem exampleSandbox
     (JObj [(''json'', JObj [(''x'', JNum 1)]), (''binary'', JArr [JNum 1, JNum 2])]) 3 =
     Inl (ValidationError
       ''A 'binary' property isn't an object''
       (''In the returned data, every key named 'binary'' @
          [CHR 0xE2, CHR 0x80, CHR 0x99] @ '' must point to an object.'')
       (Some 3))"
  using validateItem_json_binary
    [of "JObj [(''json'', JObj [(''x'', JNum 1)]), (''binary'', JArr [JNum 1, JNum 2])]"
        exampleSandbox 3]
  by (simp add: isObject_def getTextKey_def exampleSandbox_def)

lemma validateItem_error_shape:
  assumes "validateItem this item i = Inl e"
  shows "e = TypeError \<or> (\<exists>m d. e = ValidationError (CHR ''A'' # m) d (Some i))"
  using assms by (auto simp: validateItem_def Let_def split: if_splits)

lemma validateItemsFrom_error_shape:
  assumes "validateItemsFrom this items k = Inl e"
  shows "e = TypeError \<or> (\<exists>m d j. e = ValidationError (CHR ''A'' # m) d (Some j))"
  using assms
proof (induction items arbitrary: k)
  case Nil
  then show ?case by simp
next
  case (Cons item items)
  show ?case
  proof (cases "validateItem this item k")
    case (Inl e')
    with Cons.prems have "e' = e" by simp
    with Inl validateItem_error_shape [of this item k e] show ?thesis by blast
  next
    case (Inr u)
    with Cons.prems have "validateItemsFrom this items (Suc k) = Inl e" by simp
    then show ?thesis by (rule Cons.IH)
  qed
qed

subsection \<open>All-items validation: a single object\<close>

text \<open>
  C10. For every result whose type tag is \<^verbatim>\<open>object\<close> and that is not an array,
  \<open>validateRunCodeAllItems\<close> hands the result to the normalizer and runs the Item Validator
  on the normalized items, and nothing else: it never raises \<open>ReservedKeyFoundError\<close> nor
  the Unknown-top-level-key error, whatever keys the result has.
\<close>

theorem validateRunCodeAllItems_single_object:
  assumes "typeof r = ''object''" and "\<not> isArray r"
  shows "validateRunCodeAllItems this r =
           (case normalizeItems (helpers this) r of
              Inl thrown \<Rightarrow> Inl (HelperError thrown)
            | Inr returnData \<Rightarrow>
                (case validateItemsFrom this returnData 0 of
                   Inl e \<Rightarrow> Inl e
                 | Inr u \<Rightarrow> Inr returnData))
         \<and> (\<forall>e. validateRunCodeAllItems this r = Inl e \<longrightarrow>
               (\<forall>key j. e \<noteq> ReservedKeyFoundError key j) \<and>
               (\<forall>key d j. e \<noteq> ValidationError (''Unknown top-level item key: '' @ key) d j))"
proof -
  have eq: "validateRunCodeAllItems this r = normalizeAndValidate this r"
    using assms by (cases r) (simp_all add: validateRunCodeAllItems_def)
  have shape: "e = TypeError \<or> (\<exists>t. e = HelperError t) \<or>
                 (\<exists>m d j. e = ValidationError (CHR ''A'' # m) d (Some j))"
    if "normalizeAndValidate this r = Inl e" for e
    using that validateItemsFrom_error_shape [of this _ 0 e]
    by (auto simp: normalizeAndValidate_def split: sum.splits)
  show ?thesis
  proof (intro conjI allI impI)
    show "validateRunCodeAllItems this r =
           (case normalizeItems (helpers this) r of
              Inl thrown \<Rightarrow> Inl (HelperError thrown)
            | Inr returnData \<Rightarrow>
                (case validateItemsFrom this returnData 0 of
                   Inl e \<Rightarrow> Inl e
                 | Inr u \<Rightarrow> Inr returnData))"
      using eq by (simp add: normalizeAndValidate_def)
  next
    fix e key j
    assume "validateRunCodeAllItems this r = Inl e"
    with eq shape [of e] show "e \<noteq> ReservedKeyFoundError key j"
      by (auto simp: ReservedKeyFoundError_def)
  next
    fix e key d j
    assume "validateRunCodeAllItems this r = Inl e"
    with eq shape [of e]
    show "e \<noteq> ValidationError (''Unknown top-level item key: '' @ key) d j"
      by auto
  qed
qed

theorem validateRunCodeAllItems_single_object_witness:
  "typeof (JObj [(''json'', JObj []), (''foo'', JNum 1)]) = ''object'' \<and>
   \<not> isArray (JObj [(''json'', JObj []), (''foo'', JNum 1)]) \<and>
   validateTopLevelKeys (JObj [(''json'', JObj []), (''foo'', JNum 1)]) 0 =
     Inl (ReservedKeyFoundError ''json'' 0) \<and>
   validateRunCodeAllItems exampleSandbox (JObj [(''json'', JObj []), (''foo'', JNum 1)]) =
     Inr [JObj [(''json'', JObj []), (''foo'', JNum 1)]]"
  using validateRunCodeAllItems_single_object
    [of "JObj [(''json'', JObj []), (''foo'', JNum 1)]" exampleSandbox]
  by (simp add: exampleSandbox_def wrapItem_def hasReservedKey_def REQUIRED_N8N_ITEM_KEYS_def
      validateItem_def isObject_def validateTopLevelKeys_def)

subsection \<open>All-items validation: arrays\<close>

lemma find_reserved:
  "find (\<lambda>key. key \<in> REQUIRED_N8N_ITEM_KEYS) (ownKeys item) = Some key \<Longrightarrow>
     key \<noteq> [] \<and> hasReservedKey item"
  by (auto simp: hasReservedKey_def list_ex_iff dest: find_Some_holds reserved_key_not_empty)

lemma find_no_reserved:
  "find (\<lambda>key. key \<in> REQUIRED_N8N_ITEM_KEYS) (ownKeys item) = None \<Longrightarrow> \<not> hasReservedKey item"
  by (auto simp: find_None_iff hasReservedKey_def list_ex_iff)

lemma hasReservedKey_not_nullish: "hasReservedKey item \<Longrightarrow> \<not> nullish item"
  by (cases item) (simp_all add: hasReservedKey_def)

lemma someHasN8nKey_head:
  assumes "\<not> nullish item"
  shows "someHasN8nKey (item # items) =
           (if hasReservedKey item then Inr True else someHasN8nKey items)"
  using assms find_reserved [of item] find_no_reserved [of item]
  by (auto simp: objectKeys_def split: option.splits)

lemma someHasN8nKey_exists:
  assumes "\<forall>i<length xs. nullish (xs ! i) \<longrightarrow> (\<exists>j<i. hasReservedKey (xs ! j))"
  shows "someHasN8nKey xs = Inr (\<exists>x\<in>set xs. hasReservedKey x)"
  using assms
proof (induction xs)
  case Nil
  then show ?case by simp
next
  case (Cons x xs)
  from Cons.prems [rule_format, of 0] have nn: "\<not> nullish x" by auto
  show ?case
  proof (cases "hasReservedKey x")
    case True
    with someHasN8nKey_head [OF nn, of xs] show ?thesis by simp
  next
    case False
    have "\<forall>i<length xs. nullish (xs ! i) \<longrightarrow> (\<exists>j<i. hasReservedKey (xs ! j))"
    proof (intro allI impI)
      fix i assume i: "i < length xs" and n: "nullish (xs ! i)"
      from Cons.prems [rule_format, of "Suc i"] i n
      obtain j where j: "j < Suc i" "hasReservedKey ((x # xs) ! j)" by auto
      with False obtain j' where "j = Suc j'" by (cases j) auto
      with j show "\<exists>j<i. hasReservedKey (xs ! j)" by auto
    qed
    then have "someHasN8nKey xs = Inr (\<exists>x\<in>set xs. hasReservedKey x)" by (rule Cons.IH)
    with someHasN8nKey_head [OF nn, of xs] False show ?thesis by simp
  qed
qed

lemma validateTopLevelKeysFrom_ok:
  "validateTopLevelKeysFrom xs k = Inr () \<longleftrightarrow>
     (\<forall>i<length xs. validateTopLevelKeys (xs ! i) (k + i) = Inr ())"
proof (induction xs arbitrary: k)
  case Nil
  then show ?case by simp
next
  case (Cons x xs)
  show ?case
  proof (cases "validateTopLevelKeys x k")
    case (Inl e)
    then show ?thesis by auto
  next
    case (Inr u)
    then show ?thesis
      using Cons.IH [of "Suc k"] by (auto simp: nth_Cons' All_less_Suc2 split: nat.splits)
  qed
qed

lemma validateTopLevelKeysFrom_first:
  assumes "i < length xs"
    and "validateTopLevelKeys (xs ! i) (k + i) = Inl e"
    and "\<forall>j<i. validateTopLevelKeys (xs ! j) (k + j) = Inr ()"
  shows "validateTopLevelKeysFrom xs k = Inl e"
  using assms
proof (induction xs arbitrary: k i)
  case Nil
  then show ?case by simp
next
  case (Cons x xs)
  show ?case
  proof (cases i)
    case 0
    with Cons.prems show ?thesis by simp
  next
    case (Suc i')
    from Cons.prems(3) Suc have x: "validateTopLevelKeys x k = Inr ()"
      by (auto dest: spec [of _ 0])
    have "validateTopLevelKeysFrom xs (Suc k) = Inl e"
    proof (rule Cons.IH [of i'])
      show "i' < length xs" using Cons.prems(1) Suc by simp
      show "validateTopLevelKeys (xs ! i') (Suc k + i') = Inl e"
        using Cons.prems(2) Suc by simp
      show "\<forall>j<i'. validateTopLevelKeys (xs ! j) (Suc k + j) = Inr ()"
      proof (intro allI impI)
        fix j assume "j < i'"
        with Cons.prems(3) [rule_format, of "Suc j"] Suc
        show "validateTopLevelKeys (xs ! j) (Suc k + j) = Inr ()" by simp
      qed
    qed
    with x show ?thesis by simp
  qed
qed

lemma validateRunCodeAllItems_array:
  assumes "\<forall>i<length xs. nullish (xs ! i) \<longrightarrow> (\<exists>j<i. hasReservedKey (xs ! j))"
  shows "validateRunCodeAllItems this (JArr xs) =
           (if \<exists>x\<in>set xs. hasReservedKey x then
              (case validateTopLevelKeysFrom xs 0 of
                 Inl e \<Rightarrow> Inl e
               | Inr u \<Rightarrow> normalizeAndValidate this (JArr xs))
            else normalizeAndValidate this (JArr xs))"
  using someHasN8nKey_exists [OF assms] by (simp add: validateRunCodeAllItems_def)

lemma validateItemsFrom_ok:
  "validateItemsFrom this xs k = Inr () \<longleftrightarrow>
     (\<forall>i<length xs. validateItem this (xs ! i) (k + i) = Inr ())"
proof (induction xs arbitrary: k)
  case Nil
  then show ?case by simp
next
  case (Cons x xs)
  show ?case
  proof (cases "validateItem this x k")
    case (Inl e)
    then show ?thesis by auto
  next
    case (Inr u)
    then show ?thesis
      using Cons.IH [of "Suc k"] by (auto simp: nth_Cons' All_less_Suc2 split: nat.splits)
  qed
qed

lemma validateItem_ok_not_nullish: "validateItem this item i = Inr () \<Longrightarrow> \<not> nullish item"
  by (auto simp: validateItem_def)

lemma validateTopLevelKeys_no_unknown:
  assumes "\<forall>key\<in>set (ownKeys item). key \<in> REQUIRED_N8N_ITEM_KEYS"
  shows "validateTopLevelKeys item i = Inr ()"
proof -
  from assms have "filter (\<lambda>key. key \<notin> REQUIRED_N8N_ITEM_KEYS) (ownKeys item) = []"
    by (simp add: filter_empty_conv)
  then show ?thesis
    by (simp add: validateTopLevelKeys_def topLevelKeysLoop_filter)
qed

lemma validateRunCodeAllItems_success:
  assumes "validateRunCodeAllItems this r = Inr out"
  shows "normalizeItems (helpers this) r = Inr out \<and> validateItemsFrom this out 0 = Inr ()"
proof -
  from assms have "normalizeAndValidate this r = Inr out"
    by (auto simp: validateRunCodeAllItems_def split: if_splits jsval.splits sum.splits)
  then show ?thesis
    by (auto simp: normalizeAndValidate_def split: sum.splits)
qed

lemma validateItemsFrom_first:
  assumes "i < length xs"
    and "validateItem this (xs ! i) (k + i) = Inl e"
    and "\<forall>j<i. validateItem this (xs ! j) (k + j) = Inr ()"
  shows "validateItemsFrom this xs k = Inl e"
  using assms
proof (induction xs arbitrary: k i)
  case Nil
  then show ?case by simp
next
  case (Cons x xs)
  show ?case
  proof (cases i)
    case 0
    with Cons.prems show ?thesis by simp
  next
    case (Suc i')
    from Cons.prems(3) Suc have x: "validateItem this x k = Inr ()"
      by (auto dest: spec [of _ 0])
    have "validateItemsFrom this xs (Suc k) = Inl e"
    proof (rule Cons.IH [of i'])
      show "i' < length xs" using Cons.prems(1) Suc by simp
      show "validateItem this (xs ! i') (Suc k + i') = Inl e"
        using Cons.prems(2) Suc by simp
      show "\<forall>j<i'. validateItem this (xs ! j) (Suc k + j) = Inr ()"
      proof (intro allI impI)
        fix j assume "j < i'"
        with Cons.prems(3) [rule_format, of "Suc j"] Suc
        show "validateItem this (xs ! j) (Suc k + j) = Inr ()" by simp
      qed
    qed
    with x show ?thesis by simp
  qed
qed

lemma normalizeAndValidate_thrown:
  "normalizeItems (helpers this) r = Inl t \<Longrightarrow> normalizeAndValidate this r = Inl (HelperError t)"
  by (simp add: normalizeAndValidate_def)

lemma normalizeAndValidate_first:
  assumes "normalizeItems (helpers this) r = Inr items"
    and "k < length items"
    and "validateItem this (items ! k) k = Inl e"
    and "\<forall>j<k. validateItem this (items ! j) j = Inr ()"
  shows "normalizeAndValidate this r = Inl e"
  using assms validateItemsFrom_first [of k items this 0 e]
  by (simp add: normalizeAndValidate_def)

lemma normalizeAndValidate_ok:
  assumes "normalizeItems (helpers this) r = Inr items"
    and "\<forall>k<length items. validateItem this (items ! k) k = Inr ()"
  shows "normalizeAndValidate this r = Inr items"
  using assms validateItemsFrom_ok [of this items 0]
  by (simp add: normalizeAndValidate_def)

lemma validateRunCodeAllItems_after_guard:
  assumes "(typeof r = ''object'' \<and> \<not> isArray r) \<or>
           (r = JArr xs \<and>
            (\<forall>i<length xs. nullish (xs ! i) \<longrightarrow> (\<exists>j<i. hasReservedKey (xs ! j))) \<and>
            (\<not> (\<exists>x\<in>set xs. hasReservedKey x) \<or>
             (\<forall>k<length xs. validateTopLevelKeys (xs ! k) k = Inr ())))"
  shows "validateRunCodeAllItems this r = normalizeAndValidate this r"
  using assms
proof (elim disjE conjE)
  assume "typeof r = ''object''" "\<not> isArray r"
  then show ?thesis by (cases r) (simp_all add: validateRunCodeAllItems_def)
next
  assume r: "r = JArr xs"
    and pre: "\<forall>i<length xs. nullish (xs ! i) \<longrightarrow> (\<exists>j<i. hasReservedKey (xs ! j))"
    and "\<not> (\<exists>x\<in>set xs. hasReservedKey x)"
  with validateRunCodeAllItems_array [OF pre, of this] show ?thesis by simp
next
  assume r: "r = JArr xs"
    and pre: "\<forall>i<length xs. nullish (xs ! i) \<longrightarrow> (\<exists>j<i. hasReservedKey (xs ! j))"
    and ok: "\<forall>k<length xs. validateTopLevelKeys (xs ! k) k = Inr ()"
  from ok have "validateTopLevelKeysFrom xs 0 = Inr ()"
    by (simp add: validateTopLevelKeysFrom_ok)
  with r validateRunCodeAllItems_array [OF pre, of this] show ?thesis by simp
qed

text \<open>
  C1, as the claim states it, fails for an array in which \<^verbatim>\<open>null\<close> or \<^verbatim>\<open>undefined\<close>
  comes before the first element with a reserved key: the second element below has the
  reserved key \<^verbatim>\<open>json\<close> and an unknown key, the guard passes on the first element and
  rejects the second, yet no guard error is raised, since \<^verbatim>\<open>Object.keys(null)\<close> throws
  while \<^verbatim>\<open>mustHaveTopLevelN8nKey\<close> is computed.
\<close>

theorem validateRunCodeAllItems_null_element_counterexample:
  "hasReservedKey (JObj [(''json'', JObj []), (''a'', JNum 1)]) \<and>
   validateTopLevelKeys JNull 0 = Inr () \<and>
   validateTopLevelKeys (JObj [(''json'', JObj []), (''a'', JNum 1)]) 1 =
     Inl (ReservedKeyFoundError ''json'' 1) \<and>
   validateRunCodeAllItems exampleSandbox
     (JArr [JNull, JObj [(''json'', JObj []), (''a'', JNum 1)]]) = Inl TypeError"
  by (simp add: hasReservedKey_def REQUIRED_N8N_ITEM_KEYS_def validateTopLevelKeys_def
      validateRunCodeAllItems_def objectKeys_def)

text \<open>
  C1, amended. For every array result in which no \<^verbatim>\<open>null\<close> or \<^verbatim>\<open>undefined\<close> element
  comes before the first element that has a reserved key (every array of objects is one):
  when no element has an own top-level key in the reserved key set, the guard is skipped
  and the result is that of normalizing and validating the items; when some element has
  one, the guard runs over the elements in index order before normalization, the error of
  the first element that violates it is the one raised, whatever the normalizer would do,
  and normalization follows only when no element violates it.
\<close>

theorem validateRunCodeAllItems_guard:
  assumes "\<forall>i<length xs. nullish (xs ! i) \<longrightarrow> (\<exists>j<i. hasReservedKey (xs ! j))"
  shows "(\<not> (\<exists>x\<in>set xs. hasReservedKey x) \<longrightarrow>
            validateRunCodeAllItems this (JArr xs) = normalizeAndValidate this (JArr xs))
       \<and> ((\<exists>x\<in>set xs. hasReservedKey x) \<longrightarrow>
            (\<forall>i e. i < length xs \<and> validateTopLevelKeys (xs ! i) i = Inl e \<and>
                    (\<forall>j<i. validateTopLevelKeys (xs ! j) j = Inr ()) \<longrightarrow>
                    validateRunCodeAllItems this (JArr xs) = Inl e)
          \<and> ((\<forall>i<length xs. validateTopLevelKeys (xs ! i) i = Inr ()) \<longrightarrow>
                validateRunCodeAllItems this (JArr xs) = normalizeAndValidate this (JArr xs)))"
proof (intro conjI impI allI)
  assume "\<not> (\<exists>x\<in>set xs. hasReservedKey x)"
  with validateRunCodeAllItems_array [OF assms, of this]
  show "validateRunCodeAllItems this (JArr xs) = normalizeAndValidate this (JArr xs)" by simp
next
  fix i e
  assume some: "\<exists>x\<in>set xs. hasReservedKey x"
    and viol: "i < length xs \<and> validateTopLevelKeys (xs ! i) i = Inl e \<and>
               (\<forall>j<i. validateTopLevelKeys (xs ! j) j = Inr ())"
  from viol have "validateTopLevelKeysFrom xs 0 = Inl e"
    using validateTopLevelKeysFrom_first [of i xs 0 e] by simp
  with some validateRunCodeAllItems_array [OF assms, of this]
  show "validateRunCodeAllItems this (JArr xs) = Inl e" by simp
next
  assume some: "\<exists>x\<in>set xs. hasReservedKey x"
    and ok: "\<forall>i<length xs. validateTopLevelKeys (xs ! i) i = Inr ()"
  from ok have "validateTopLevelKeysFrom xs 0 = Inr ()"
    using validateTopLevelKeysFrom_ok [of xs 0] by simp
  with some validateRunCodeAllItems_array [OF assms, of this]
  show "validateRunCodeAllItems this (JArr xs) = normalizeAndValidate this (JArr xs)" by simp
qed

theorem validateRunCodeAllItems_guard_witness:
  "\<not> nullish (JObj [(''json'', JObj [])]) \<and> \<not> nullish (JObj [(''notJson'', JNum 1)]) \<and>
   hasReservedKey (JObj [(''json'', JObj [])]) \<and>
   validateRunCodeAllItems exampleSandbox
     (JArr [JObj [(''json'', JObj [])], JObj [(''notJson'', JNum 1)]]) =
     Inl (ValidationError ''Unknown top-level item key: notJson''
            ''Access the properties of an item under `.json`, e.g. `item.json`'' (Some 1))"
proof -
  let ?xs = "[JObj [(''json'', JObj [])], JObj [(''notJson'', JNum 1)]]"
  let ?e = "ValidationError ''Unknown top-level item key: notJson''
              ''Access the properties of an item under `.json`, e.g. `item.json`'' (Some 1)"
  have pre: "\<forall>i<length ?xs. nullish (?xs ! i) \<longrightarrow> (\<exists>j<i. hasReservedKey (?xs ! j))"
    by (simp add: nth_Cons' All_less_Suc)
  have key: "hasReservedKey (JObj [(''json'', JObj [])])"
    by (simp add: hasReservedKey_def REQUIRED_N8N_ITEM_KEYS_def)
  then have some: "\<exists>x\<in>set ?xs. hasReservedKey x"
    by simp
  have viol: "(1::nat) < length ?xs \<and> validateTopLevelKeys (?xs ! 1) 1 = Inl ?e \<and>
              (\<forall>j<1. validateTopLevelKeys (?xs ! j) j = Inr ())"
    by (simp add: validateTopLevelKeys_def REQUIRED_N8N_ITEM_KEYS_def)
  from validateRunCodeAllItems_guard [OF pre, of exampleSandbox] some viol
  have "validateRunCodeAllItems exampleSandbox (JArr ?xs) = Inl ?e" by blast
  with key show ?thesis by simp
qed

subsection \<open>The order of the stages\<close>

text \<open>
  C2, as the claim states it, fails in all-items mode: the item below violates both the
  Item Validator (\<^verbatim>\<open>json\<close> is a number) and the Top-Level Key Guard (\<^verbatim>\<open>foo\<close> next to
  \<^verbatim>\<open>json\<close>), and as the one element of an array it raises the guard's error.
\<close>

theorem validation_order_counterexample:
  "validateItem exampleSandbox (JObj [(''json'', JNum 1), (''foo'', JNum 2)]) 0 =
     Inl (ValidationError ''A 'json' property isn't an object''
            ''In the returned data, every key named 'json' must point to an object.'' (Some 0)) \<and>
   validateTopLevelKeys (JObj [(''json'', JNum 1), (''foo'', JNum 2)]) 0 =
     Inl (ReservedKeyFoundError ''json'' 0) \<and>
   validateRunCodeAllItems exampleSandbox (JArr [JObj [(''json'', JNum 1), (''foo'', JNum 2)]]) =
     Inl (ReservedKeyFoundError ''json'' 0)"
  by (simp add: validateItem_def isObject_def getTextKey_def exampleSandbox_def
      validateTopLevelKeys_def REQUIRED_N8N_ITEM_KEYS_def validateRunCodeAllItems_def
      objectKeys_def)

text \<open>
  C2, amended. \<open>validateRunCodeEachItem\<close> runs the classifier, the external normalizer,
  the Item Validator and then the Top-Level Key Guard on the normalized item, stopping at
  the first violation: a result that is not an object or is an array is rejected whatever
  the normalizer would do, an exception of the normalizer is passed on, an error of the Item
  Validator is raised whatever the guard would say, an error of the guard is raised when the
  Item Validator passes, and the normalized item is returned when both pass.
  \<open>validateRunCodeAllItems\<close> runs the classifier, then the guard on the elements of the
  array as returned, then the normalizer, then the Item Validator, and no guard after
  normalization: a result that is not an object is rejected by the classifier; on an array
  with a reserved key (and no \<^verbatim>\<open>null\<close> or \<^verbatim>\<open>undefined\<close> before the first one) the error
  of the first element that violates the guard, in index order, is raised whatever the
  normalizer and the Item Validator would do; when the guard is skipped or passes on every
  element, and on every object that is not an array, an exception of the normalizer is
  passed on, else the error of the first normalized item that violates the Item Validator,
  in index order, is raised, and the normalized items are returned when all pass.
\<close>

theorem validation_order:
  "(typeof r \<noteq> ''object'' \<longrightarrow>
      (\<exists>d. validateRunCodeEachItem this r i =
             Inl (ValidationError
                    (''Code doesn't return '' @
                       getTextKey this ObjectKey \<lparr>includeArticle = True, pluralForm = False\<rparr>)
                    d (Some i))))
   \<and> (isArray r \<longrightarrow>
      (\<exists>d. validateRunCodeEachItem this r i =
             Inl (ValidationError
                    (''Code doesn't return a single '' @ getTextKey this ObjectKey noOptions)
                    d (Some i))))
   \<and> (typeof r = ''object'' \<and> \<not> isArray r \<longrightarrow>
      (\<forall>t. normalizeItems (helpers this) (JArr [r]) = Inl t \<longrightarrow>
            validateRunCodeEachItem this r i = Inl (HelperError t)))
   \<and> (typeof r = ''object'' \<and> \<not> isArray r \<and>
      normalizeItems (helpers this) (JArr [r]) = Inr (returnData # rest) \<longrightarrow>
      (\<forall>e. validateItem this returnData i = Inl e \<longrightarrow>
            validateRunCodeEachItem this r i = Inl e) \<and>
      (\<forall>e. validateItem this returnData i = Inr () \<and>
            validateTopLevelKeys returnData i = Inl e \<longrightarrow>
            validateRunCodeEachItem this r i = Inl e) \<and>
      (validateItem this returnData i = Inr () \<and> validateTopLevelKeys returnData i = Inr () \<longrightarrow>
            validateRunCodeEachItem this r i = Inr returnData))
   \<and> (typeof r \<noteq> ''object'' \<longrightarrow>
      validateRunCodeAllItems this r =
        Inl (ValidationError ''Code doesn't return items properly''
               (''Please return an array of '' @
                  getTextKey this ObjectKey \<lparr>includeArticle = False, pluralForm = True\<rparr> @
                  '', one for each item you would like to output.'')
               None))
   \<and> ((\<forall>i<length xs. nullish (xs ! i) \<longrightarrow> (\<exists>j<i. hasReservedKey (xs ! j))) \<and>
      (\<exists>x\<in>set xs. hasReservedKey x) \<longrightarrow>
      (\<forall>k e. k < length xs \<and> validateTopLevelKeys (xs ! k) k = Inl e \<and>
              (\<forall>j<k. validateTopLevelKeys (xs ! j) j = Inr ()) \<longrightarrow>
              validateRunCodeAllItems this (JArr xs) = Inl e))
   \<and> ((typeof r = ''object'' \<and> \<not> isArray r) \<or>
      (r = JArr xs \<and>
       (\<forall>i<length xs. nullish (xs ! i) \<longrightarrow> (\<exists>j<i. hasReservedKey (xs ! j))) \<and>
       (\<not> (\<exists>x\<in>set xs. hasReservedKey x) \<or>
        (\<forall>k<length xs. validateTopLevelKeys (xs ! k) k = Inr ()))) \<longrightarrow>
      (\<forall>t. normalizeItems (helpers this) r = Inl t \<longrightarrow>
            validateRunCodeAllItems this r = Inl (HelperError t)) \<and>
      (\<forall>items. normalizeItems (helpers this) r = Inr items \<longrightarrow>
         (\<forall>k e. k < length items \<and> validateItem this (items ! k) k = Inl e \<and>
                 (\<forall>j<k. validateItem this (items ! j) j = Inr ()) \<longrightarrow>
                 validateRunCodeAllItems this r = Inl e) \<and>
         ((\<forall>k<length items. validateItem this (items ! k) k = Inr ()) \<longrightarrow>
            validateRunCodeAllItems this r = Inr items)))"
proof -
  have each_classifier: "typeof r \<noteq> ''object'' \<longrightarrow>
      (\<exists>d. validateRunCodeEachItem this r i =
             Inl (ValidationError
                    (''Code doesn't return '' @
                       getTextKey this ObjectKey \<lparr>includeArticle = True, pluralForm = False\<rparr>)
                    d (Some i)))"
    by (simp add: validateRunCodeEachItem_def)
  have each_array: "isArray r \<longrightarrow>
      (\<exists>d. validateRunCodeEachItem this r i =
             Inl (ValidationError
                    (''Code doesn't return a single '' @ getTextKey this ObjectKey noOptions)
                    d (Some i)))"
    by (cases r) (simp_all add: validateRunCodeEachItem_def)
  have each_thrown: "typeof r = ''object'' \<and> \<not> isArray r \<longrightarrow>
      (\<forall>t. normalizeItems (helpers this) (JArr [r]) = Inl t \<longrightarrow>
            validateRunCodeEachItem this r i = Inl (HelperError t))"
    by (cases r) (simp_all add: validateRunCodeEachItem_def)
  have each_stages: "typeof r = ''object'' \<and> \<not> isArray r \<and>
      normalizeItems (helpers this) (JArr [r]) = Inr (returnData # rest) \<longrightarrow>
      (\<forall>e. validateItem this returnData i = Inl e \<longrightarrow>
            validateRunCodeEachItem this r i = Inl e) \<and>
      (\<forall>e. validateItem this returnData i = Inr () \<and>
            validateTopLevelKeys returnData i = Inl e \<longrightarrow>
            validateRunCodeEachItem this r i = Inl e) \<and>
      (validateItem this returnData i = Inr () \<and> validateTopLevelKeys returnData i = Inr () \<longrightarrow>
            validateRunCodeEachItem this r i = Inr returnData)"
    by (cases r) (simp_all add: validateRunCodeEachItem_def)
  have all_classifier: "typeof r \<noteq> ''object'' \<longrightarrow>
      validateRunCodeAllItems this r =
        Inl (ValidationError ''Code doesn't return items properly''
               (''Please return an array of '' @
                  getTextKey this ObjectKey \<lparr>includeArticle = False, pluralForm = True\<rparr> @
                  '', one for each item you would like to output.'')
               None)"
    by (simp add: validateRunCodeAllItems_def)
  have all_guard: "(\<forall>i<length xs. nullish (xs ! i) \<longrightarrow> (\<exists>j<i. hasReservedKey (xs ! j))) \<and>
      (\<exists>x\<in>set xs. hasReservedKey x) \<longrightarrow>
      (\<forall>k e. k < length xs \<and> validateTopLevelKeys (xs ! k) k = Inl e \<and>
              (\<forall>j<k. validateTopLevelKeys (xs ! j) j = Inr ()) \<longrightarrow>
              validateRunCodeAllItems this (JArr xs) = Inl e)"
  proof (intro impI allI, elim conjE)
    fix k e
    assume pre: "\<forall>i<length xs. nullish (xs ! i) \<longrightarrow> (\<exists>j<i. hasReservedKey (xs ! j))"
      and some: "\<exists>x\<in>set xs. hasReservedKey x"
      and k: "k < length xs" and viol: "validateTopLevelKeys (xs ! k) k = Inl e"
      and before: "\<forall>j<k. validateTopLevelKeys (xs ! j) j = Inr ()"
    from k viol before have "validateTopLevelKeysFrom xs 0 = Inl e"
      using validateTopLevelKeysFrom_first [of k xs 0 e] by simp
    with some validateRunCodeAllItems_array [OF pre, of this]
    show "validateRunCodeAllItems this (JArr xs) = Inl e" by simp
  qed
  have all_rest: "(typeof r = ''object'' \<and> \<not> isArray r) \<or>
      (r = JArr xs \<and>
       (\<forall>i<length xs. nullish (xs ! i) \<longrightarrow> (\<exists>j<i. hasReservedKey (xs ! j))) \<and>
       (\<not> (\<exists>x\<in>set xs. hasReservedKey x) \<or>
        (\<forall>k<length xs. validateTopLevelKeys (xs ! k) k = Inr ()))) \<longrightarrow>
      (\<forall>t. normalizeItems (helpers this) r = Inl t \<longrightarrow>
            validateRunCodeAllItems this r = Inl (HelperError t)) \<and>
      (\<forall>items. normalizeItems (helpers this) r = Inr items \<longrightarrow>
         (\<forall>k e. k < length items \<and> validateItem this (items ! k) k = Inl e \<and>
                 (\<forall>j<k. validateItem this (items ! j) j = Inr ()) \<longrightarrow>
                 validateRunCodeAllItems this r = Inl e) \<and>
         ((\<forall>k<length items. validateItem this (items ! k) k = Inr ()) \<longrightarrow>
            validateRunCodeAllItems this r = Inr items))"
  proof (intro impI)
    assume "(typeof r = ''object'' \<and> \<not> isArray r) \<or>
      (r = JArr xs \<and>
       (\<forall>i<length xs. nullish (xs ! i) \<longrightarrow> (\<exists>j<i. hasReservedKey (xs ! j))) \<and>
       (\<not> (\<exists>x\<in>set xs. hasReservedKey x) \<or>
        (\<forall>k<length xs. validateTopLevelKeys (xs ! k) k = Inr ())))"
    then have eq: "validateRunCodeAllItems this r = normalizeAndValidate this r"
      by (rule validateRunCodeAllItems_after_guard)
    show "(\<forall>t. normalizeItems (helpers this) r = Inl t \<longrightarrow>
            validateRunCodeAllItems this r = Inl (HelperError t)) \<and>
      (\<forall>items. normalizeItems (helpers this) r = Inr items \<longrightarrow>
         (\<forall>k e. k < length items \<and> validateItem this (items ! k) k = Inl e \<and>
                 (\<forall>j<k. validateItem this (items ! j) j = Inr ()) \<longrightarrow>
                 validateRunCodeAllItems this r = Inl e) \<and>
         ((\<forall>k<length items. validateItem this (items ! k) k = Inr ()) \<longrightarrow>
            validateRunCodeAllItems this r = Inr items))"
      unfolding eq
      by (auto intro: normalizeAndValidate_thrown normalizeAndValidate_first
          normalizeAndValidate_ok)
  qed
  from each_classifier each_array each_thrown each_stages all_classifier all_guard all_rest
  show ?thesis by (intro conjI)
qed

theorem validation_order_witness:
  "validateRunCodeEachItem exampleSandbox (JObj [(''json'', JNum 1), (''foo'', JNum 2)]) 0 =
     Inl (ValidationError ''A 'json' property isn't an object''
            ''In the returned data, every key named 'json' must point to an object.'' (Some 0)) \<and>
   validateRunCodeAllItems exampleSandbox
     (JArr [JObj [(''json'', JObj [])], JObj [(''json'', JNum 1), (''foo'', JNum 2)]]) =
     Inl (ReservedKeyFoundError ''json'' 1) \<and>
   validateRunCodeAllItems exampleSandbox
     (JArr [JObj [(''json'', JObj [])], JObj [(''json'', JNum 1)]]) =
     Inl (ValidationError ''A 'json' property isn't an object''
            ''In the returned data, every key named 'json' must point to an object.'' (Some 1))"
proof -
  let ?a = "JObj [(''json'', JObj [])]"
  let ?b = "JObj [(''json'', JNum 1)]"
  let ?x = "JObj [(''json'', JNum 1), (''foo'', JNum 2)]"
  let ?je = "\<lambda>k. ValidationError ''A 'json' property isn't an object''
            ''In the returned data, every key named 'json' must point to an object.'' (Some k)"
  have each: "validateRunCodeEachItem exampleSandbox ?x 0 = Inl (?je 0)"
  proof -
    have n: "normalizeItems (helpers exampleSandbox) (JArr [?x]) = Inr (?x # [])"
      by (simp add: exampleSandbox_def wrapItem_def hasReservedKey_def REQUIRED_N8N_ITEM_KEYS_def)
    have t: "typeof ?x = ''object'' \<and> \<not> isArray ?x" by simp
    have vi: "validateItem exampleSandbox ?x 0 = Inl (?je 0)"
      by (simp add: validateItem_def isObject_def getTextKey_def exampleSandbox_def)
    note stages = validation_order [where r = ?x and this = exampleSandbox and i = 0
        and returnData = ?x and rest = "[]",
        THEN conjunct2, THEN conjunct2, THEN conjunct2, THEN conjunct1, rule_format]
    from t n have "typeof ?x = ''object'' \<and> \<not> isArray ?x \<and>
        normalizeItems (helpers exampleSandbox) (JArr [?x]) = Inr (?x # [])"
      by (intro conjI) simp_all
    from stages [OF this, THEN conjunct1, rule_format, OF vi] show ?thesis .
  qed
  have guard: "validateRunCodeAllItems exampleSandbox (JArr [?a, ?x]) =
                 Inl (ReservedKeyFoundError ''json'' 1)"
  proof -
    have pre: "\<forall>i<length [?a, ?x]. nullish ([?a, ?x] ! i) \<longrightarrow>
                 (\<exists>j<i. hasReservedKey ([?a, ?x] ! j))"
      by (simp add: nth_Cons' All_less_Suc)
    have some: "\<exists>x\<in>set [?a, ?x]. hasReservedKey x"
      by (simp add: hasReservedKey_def REQUIRED_N8N_ITEM_KEYS_def)
    have viol: "(1::nat) < length [?a, ?x] \<and>
                validateTopLevelKeys ([?a, ?x] ! 1) 1 = Inl (ReservedKeyFoundError ''json'' 1) \<and>
                (\<forall>j<1. validateTopLevelKeys ([?a, ?x] ! j) j = Inr ())"
      by (simp add: validateTopLevelKeys_def REQUIRED_N8N_ITEM_KEYS_def)
    note guard_first = validation_order [where this = exampleSandbox and xs = "[?a, ?x]",
        THEN conjunct2, THEN conjunct2, THEN conjunct2, THEN conjunct2, THEN conjunct2,
        THEN conjunct1, rule_format]
    from guard_first [OF conjI [OF pre some] viol] show ?thesis .
  qed
  have items: "validateRunCodeAllItems exampleSandbox (JArr [?a, ?b]) = Inl (?je 1)"
  proof -
    have pre: "\<forall>i<length [?a, ?b]. nullish ([?a, ?b] ! i) \<longrightarrow>
                 (\<exists>j<i. hasReservedKey ([?a, ?b] ! j))"
      by (simp add: nth_Cons' All_less_Suc)
    have ok: "\<forall>k<length [?a, ?b]. validateTopLevelKeys ([?a, ?b] ! k) k = Inr ()"
      by (simp add: nth_Cons' All_less_Suc validateTopLevelKeys_def REQUIRED_N8N_ITEM_KEYS_def)
    have n: "normalizeItems (helpers exampleSandbox) (JArr [?a, ?b]) = Inr [?a, ?b]"
      by (simp add: exampleSandbox_def wrapItem_def hasReservedKey_def REQUIRED_N8N_ITEM_KEYS_def)
    have viol: "(1::nat) < length [?a, ?b] \<and>
                validateItem exampleSandbox ([?a, ?b] ! 1) 1 = Inl (?je 1) \<and>
                (\<forall>j<1. validateItem exampleSandbox ([?a, ?b] ! j) j = Inr ())"
      by (simp add: validateItem_def isObject_def getTextKey_def exampleSandbox_def)
    have passed: "(typeof (JArr [?a, ?b]) = ''object'' \<and> \<not> isArray (JArr [?a, ?b])) \<or>
        (JArr [?a, ?b] = JArr [?a, ?b] \<and>
         (\<forall>i<length [?a, ?b]. nullish ([?a, ?b] ! i) \<longrightarrow>
            (\<exists>j<i. hasReservedKey ([?a, ?b] ! j))) \<and>
         (\<not> (\<exists>x\<in>set [?a, ?b]. hasReservedKey x) \<or>
          (\<forall>k<length [?a, ?b]. validateTopLevelKeys ([?a, ?b] ! k) k = Inr ())))"
      by (rule disjI2, intro conjI, rule refl, rule pre, rule disjI2, rule ok)
    note after_guard = validation_order [where r = "JArr [?a, ?b]" and this = exampleSandbox
        and xs = "[?a, ?b]",
        THEN conjunct2, THEN conjunct2, THEN conjunct2, THEN conjunct2, THEN conjunct2,
        THEN conjunct2, rule_format]
    note item_first = after_guard [OF passed, THEN conjunct2, rule_format, OF n,
        THEN conjunct1, rule_format]
    from item_first [OF viol] show ?thesis .
  qed
  from each guard items show ?thesis by simp
qed

subsection \<open>Running all-items validation on its own output\<close>

text \<open>
  C8, as the claim states it, fails: a single object with a reserved and an unknown key is
  not checked by the guard (it is not an array) and is returned as a one-element sequence,
  on which the guard then raises \<open>ReservedKeyFoundError\<close>.
\<close>

theorem validateRunCodeAllItems_rerun_counterexample:
  "validateRunCodeAllItems exampleSandbox (JObj [(''json'', JObj []), (''foo'', JNum 1)]) =
     Inr [JObj [(''json'', JObj []), (''foo'', JNum 1)]] \<and>
   validateRunCodeAllItems exampleSandbox (JArr [JObj [(''json'', JObj []), (''foo'', JNum 1)]]) =
     Inl (ReservedKeyFoundError ''json'' 0)"
  by (simp add: validateRunCodeAllItems_def normalizeAndValidate_def exampleSandbox_def
      wrapItem_def hasReservedKey_def REQUIRED_N8N_ITEM_KEYS_def validateItem_def isObject_def
      objectKeys_def validateTopLevelKeys_def)

text \<open>
  C8, amended. For every input on which \<open>validateRunCodeAllItems\<close> succeeds: if every
  returned item has reserved top-level keys only, and the normalizer returns the returned
  sequence unchanged, then running \<open>validateRunCodeAllItems\<close> on the returned sequence
  succeeds and returns that sequence.
\<close>

theorem validateRunCodeAllItems_rerun:
  assumes first: "validateRunCodeAllItems this r = Inr out"
    and fixed: "normalizeItems (helpers this) (JArr out) = Inr out"
    and known: "\<forall>item\<in>set out. \<forall>key\<in>set (ownKeys item). key \<in> REQUIRED_N8N_ITEM_KEYS"
  shows "validateRunCodeAllItems this (JArr out) = Inr out"
proof -
  from first have items: "validateItemsFrom this out 0 = Inr ()"
    by (simp add: validateRunCodeAllItems_success)
  then have "\<forall>i<length out. \<not> nullish (out ! i)"
    by (auto simp: validateItemsFrom_ok dest: validateItem_ok_not_nullish)
  then have pre: "\<forall>i<length out. nullish (out ! i) \<longrightarrow> (\<exists>j<i. hasReservedKey (out ! j))"
    by simp
  from known have "\<forall>i<length out. validateTopLevelKeys (out ! i) i = Inr ()"
    by (auto intro!: validateTopLevelKeys_no_unknown)
  then have guard: "validateTopLevelKeysFrom out 0 = Inr ()"
    by (simp add: validateTopLevelKeysFrom_ok)
  from fixed items have "normalizeAndValidate this (JArr out) = Inr out"
    by (simp add: normalizeAndValidate_def)
  with guard validateRunCodeAllItems_array [OF pre, of this] show ?thesis by simp
qed

theorem validateRunCodeAllItems_rerun_witness:
  "validateRunCodeAllItems exampleSandbox (JArr [JObj [(''a'', JNum 1)], JObj [(''b'', JNum 2)]]) =
     Inr [JObj [(''json'', JObj [(''a'', JNum 1)])], JObj [(''json'', JObj [(''b'', JNum 2)])]] \<and>
   validateRunCodeAllItems exampleSandbox
     (JArr [JObj [(''json'', JObj [(''a'', JNum 1)])], JObj [(''json'', JObj [(''b'', JNum 2)])]]) =
     Inr [JObj [(''json'', JObj [(''a'', JNum 1)])], JObj [(''json'', JObj [(''b'', JNum 2)])]]"
proof -
  let ?r = "JArr [JObj [(''a'', JNum 1)], JObj [(''b'', JNum 2)]]"
  let ?out = "[JObj [(''json'', JObj [(''a'', JNum 1)])], JObj [(''json'', JObj [(''b'', JNum 2)])]]"
  have first: "validateRunCodeAllItems exampleSandbox ?r = Inr ?out"
    by (simp add: validateRunCodeAllItems_def normalizeAndValidate_def exampleSandbox_def
      wrapItem_def hasReservedKey_def REQUIRED_N8N_ITEM_KEYS_def validateItem_def isObject_def
      objectKeys_def)
  have fixed: "normalizeItems (helpers exampleSandbox) (JArr ?out) = Inr ?out"
    by (simp add: exampleSandbox_def wrapItem_def hasReservedKey_def REQUIRED_N8N_ITEM_KEYS_def)
  have known: "\<forall>item\<in>set ?out. \<forall>key\<in>set (ownKeys item). key \<in> REQUIRED_N8N_ITEM_KEYS"
    by (simp add: REQUIRED_N8N_ITEM_KEYS_def)
  from validateRunCodeAllItems_rerun [OF first fixed known] first show ?thesis by simp
qed

end
